theory Spec2Isabelle
  imports Complex_Main "HOL-Library.Log_Nat"
begin

section \<open>Dates at day granularity\<close>

text \<open>
  A JavaScript \<^verbatim>\<open>Date\<close> is modelled by its \<^verbatim>\<open>getTime()\<close> value: an integer number of
  milliseconds, read in the local time zone, every calendar day being 86400000 ms long
  (no daylight-saving shifts). Only valid dates are modelled: the rows of the reservation
  store are taken after \<^verbatim>\<open>parseISO\<close>, and the date pickers hand over valid dates.
\<close>

type_synonym Date = int

definition msPerDay :: int where
  "msPerDay = 86400000"

text \<open>\<^verbatim>\<open>format(date, 'yyyy-MM-dd')\<close>: the calendar day of a date, as the index of the day.\<close>

definition format_yyyyMMdd :: "Date \<Rightarrow> int" where
  "format_yyyyMMdd d = d div msPerDay"

text \<open>\<^verbatim>\<open>parseISO\<close> of a \<^verbatim>\<open>'yyyy-MM-dd'\<close> string: local midnight of that day.\<close>

definition parseISO :: "int \<Rightarrow> Date" where
  "parseISO k = k * msPerDay"

text \<open>\<^verbatim>\<open>setHours(0, 0, 0, 0)\<close>, the start of the day of a date.\<close>

definition startOfDay :: "Date \<Rightarrow> Date" where
  "startOfDay d = d - d mod msPerDay"

definition isSameDay :: "Date \<Rightarrow> Date \<Rightarrow> bool" where
  "isSameDay a b = (startOfDay a = startOfDay b)"

datatype exn = RangeError

text \<open>
  The repository does not say which release of date-fns it runs on, and the releases
  differ on an interval whose start is after its end: the 2.x line throws
  \<^verbatim>\<open>RangeError\<close>, the lines 3.x and 4.x return the days in descending order. The release
  is a parameter of everything that enumerates days.
\<close>

datatype DateFns = V2 | V3

text \<open>
  \<^verbatim>\<open>eachDayOfInterval({ start, end })\<close> of date-fns. For \<^verbatim>\<open>start <= end\<close> every release
  collects the midnights from the day of \<^verbatim>\<open>start\<close> while they are not after \<^verbatim>\<open>end\<close>:
  \<^verbatim>\<open>
    const dates = []
    const currentDate = startDate
    currentDate.setHours(0, 0, 0, 0)
    while (currentDate.getTime() <= endTime) {
      dates.push(toDate(currentDate))
      currentDate.setDate(currentDate.getDate() + 1)
      currentDate.setHours(0, 0, 0, 0)
    }
  \<close>
\<close>

function eachDayLoop :: "Date \<Rightarrow> Date \<Rightarrow> Date list" where
  "eachDayLoop currentDate endTime =
     (if currentDate \<le> endTime
      then currentDate # eachDayLoop (startOfDay (currentDate + msPerDay)) endTime
      else [])"
  by pat_completeness auto
termination
proof (relation "measure (\<lambda>(c, e). nat (e + 1 - c))")
  show "wf (measure (\<lambda>(c, e). nat (e + 1 - c)))" by simp
next
  fix currentDate endTime :: Date
  assume le: "currentDate \<le> endTime"
  have "(currentDate + msPerDay) mod msPerDay < msPerDay"
    by (simp add: msPerDay_def)
  then have "currentDate < startOfDay (currentDate + msPerDay)"
    by (simp add: startOfDay_def)
  with le show "((startOfDay (currentDate + msPerDay), endTime), (currentDate, endTime))
      \<in> measure (\<lambda>(c, e). nat (e + 1 - c))"
    by simp
qed

declare eachDayLoop.simps [simp del]

text \<open>
  For \<^verbatim>\<open>start > end\<close> release 2 throws; release 3 runs the same loop from the day of
  \<^verbatim>\<open>end\<close> up to \<^verbatim>\<open>start\<close> and returns the list reversed.
\<close>

definition eachDayOfInterval :: "DateFns \<Rightarrow> Date \<Rightarrow> Date \<Rightarrow> exn + Date list" where
  "eachDayOfInterval lib start endDate =
     (if start \<le> endDate then Inr (eachDayLoop (startOfDay start) endDate)
      else
        (case lib of
           V2 \<Rightarrow> Inl RangeError
         | V3 \<Rightarrow> Inr (rev (eachDayLoop (startOfDay endDate) start))))"

text \<open>
  \<^verbatim>\<open>differenceInDays(left, right)\<close> of date-fns: the number of full days between two
  dates, truncated towards zero.
\<close>

definition differenceInDays :: "Date \<Rightarrow> Date \<Rightarrow> int" where
  "differenceInDays dateLeft dateRight =
     sgn (dateLeft - dateRight) * (\<bar>dateLeft - dateRight\<bar> div msPerDay)"

section \<open>Numbers\<close>

text \<open>
  A JavaScript \<^verbatim>\<open>number\<close> is a binary64 value: a finite one (here the rational it stands
  for, the two zeros being one), an infinity or \<^verbatim>\<open>NaN\<close>. The sign of a zero shows in none
  of the operations below.
\<close>

datatype number = Finite rat | PosInfinity | NegInfinity | NaN

text \<open>The exponent of a rational other than zero: \<open>2 powi ilog2 x \<le> \<bar>x\<bar> < 2 powi (ilog2 x + 1)\<close>.\<close>

definition ilog2 :: "rat \<Rightarrow> int" where
  "ilog2 x =
     (if 1 \<le> \<bar>x\<bar> then bitlen \<lfloor>\<bar>x\<bar>\<rfloor> - 1 else - bitlen (\<lceil>1 / \<bar>x\<bar>\<rceil> - 1))"

definition roundTiesToEven :: "rat \<Rightarrow> int" where
  "roundTiesToEven x =
     (let f = \<lfloor>x\<rfloor>; r = x - of_int f
      in if r < 1 / 2 then f else if 1 / 2 < r then f + 1 else if even f then f else f + 1)"

text \<open>
  The binary64 value of an exact result: the nearest multiple of the unit in the last
  place, a tie going to the even one; 53 bits of precision, the exponents from -1022 (below
  which the unit stays \<open>2 powi - 1074\<close>) to 1023 (above which the result is an infinity).
\<close>

definition binary64 :: "rat \<Rightarrow> number" where
  "binary64 x =
     (if x = 0 then Finite 0
      else
        let e = max (ilog2 x) (- 1022);
            ulp = 2 powi (e - 52);
            y = of_int (roundTiesToEven (x / ulp)) * ulp
        in if 1024 \<le> ilog2 y then (if 0 < x then PosInfinity else NegInfinity)
           else Finite y)"

text \<open>The operators \<^verbatim>\<open>*\<close> and \<^verbatim>\<open>-\<close>, the division by the literal 100, and \<^verbatim>\<open>Math.round\<close>.\<close>

fun number_mul :: "number \<Rightarrow> number \<Rightarrow> number" where
  "number_mul (Finite x) (Finite y) = binary64 (x * y)"
| "number_mul NaN b = NaN"
| "number_mul a NaN = NaN"
| "number_mul (Finite x) PosInfinity =
     (if x = 0 then NaN else if 0 < x then PosInfinity else NegInfinity)"
| "number_mul (Finite x) NegInfinity =
     (if x = 0 then NaN else if 0 < x then NegInfinity else PosInfinity)"
| "number_mul PosInfinity (Finite y) =
     (if y = 0 then NaN else if 0 < y then PosInfinity else NegInfinity)"
| "number_mul NegInfinity (Finite y) =
     (if y = 0 then NaN else if 0 < y then NegInfinity else PosInfinity)"
| "number_mul PosInfinity PosInfinity = PosInfinity"
| "number_mul PosInfinity NegInfinity = NegInfinity"
| "number_mul NegInfinity PosInfinity = NegInfinity"
| "number_mul NegInfinity NegInfinity = PosInfinity"

fun number_sub :: "number \<Rightarrow> number \<Rightarrow> number" where
  "number_sub (Finite x) (Finite y) = binary64 (x - y)"
| "number_sub NaN b = NaN"
| "number_sub a NaN = NaN"
| "number_sub (Finite x) PosInfinity = NegInfinity"
| "number_sub (Finite x) NegInfinity = PosInfinity"
| "number_sub PosInfinity (Finite y) = PosInfinity"
| "number_sub NegInfinity (Finite y) = NegInfinity"
| "number_sub PosInfinity PosInfinity = NaN"
| "number_sub PosInfinity NegInfinity = PosInfinity"
| "number_sub NegInfinity PosInfinity = NegInfinity"
| "number_sub NegInfinity NegInfinity = NaN"

fun number_div100 :: "number \<Rightarrow> number" where
  "number_div100 (Finite x) = binary64 (x / 100)"
| "number_div100 a = a"

text \<open>\<^verbatim>\<open>Math.round\<close>: the nearest integer, a half rounded up.\<close>

fun Math_round :: "number \<Rightarrow> number" where
  "Math_round (Finite x) = Finite (of_int \<lfloor>x + 1 / 2\<rfloor>)"
| "Math_round a = a"

text \<open>
  The number of nights, an integer, as a \<^verbatim>\<open>number\<close>: the dates of JavaScript span fewer
  than \<open>2 ^ 53\<close> days, so the integer is a binary64 value as it stands.
\<close>

definition number_of_int :: "int \<Rightarrow> number" where
  "number_of_int n = Finite (of_int n)"

section \<open>The booking form\<close>

text \<open>
  \<^verbatim>\<open>Partial<BookingDetails>\<close>: every field may be missing.
\<close>

record BookingDetails =
  apartmentId :: "string option"
  checkIn :: "Date option"
  checkOut :: "Date option"
  guestName :: "string option"
  guestEmail :: "string option"

record Apartment =
  id_Apartment :: string
  name :: string
  pricePerNight :: number

record Booking =
  check_in :: Date
  check_out :: Date

text \<open>The component state of \<^verbatim>\<open>BookingForm\<close> (the \<^verbatim>\<open>useState\<close> cells).\<close>

record FormState =
  bookingDetails :: BookingDetails
  isLoading :: bool
  error :: "string option"
  bookedDates :: "Date list"

definition initialState :: "Apartment \<Rightarrow> FormState" where
  "initialState apartment =
     \<lparr>bookingDetails = \<lparr>apartmentId = Some (id_Apartment apartment), checkIn = None,
        checkOut = None, guestName = None, guestEmail = None\<rparr>,
      isLoading = False, error = None, bookedDates = []\<rparr>"

text \<open>The answer of a store query: \<^verbatim>\<open>{ data, error }\<close>.\<close>

record 'a PostgrestResponse =
  data :: "'a option"
  qerror :: "string option"

subsection \<open>Building the set of booked dates\<close>

text \<open>The \<^verbatim>\<open>data.forEach\<close> loop pushing every day of every booking onto \<^verbatim>\<open>allDates\<close>.\<close>

fun collectDays :: "DateFns \<Rightarrow> Booking list \<Rightarrow> Date list \<Rightarrow> exn + Date list" where
  "collectDays lib [] allDates = Inr allDates"
| "collectDays lib (booking # rest) allDates =
     (case eachDayOfInterval lib (check_in booking) (check_out booking) of
        Inl e \<Rightarrow> Inl e
      | Inr daysInRange \<Rightarrow> collectDays lib rest (allDates @ daysInRange))"

text \<open>\<^verbatim>\<open>Array.from(new Set(xs))\<close>: the first occurrence of every element, in order.\<close>

fun arrayFromSet :: "'a list \<Rightarrow> 'a list" where
  "arrayFromSet [] = []"
| "arrayFromSet (x # xs) = x # arrayFromSet (filter (\<lambda>y. y \<noteq> x) xs)"

definition uniqueDates :: "Date list \<Rightarrow> Date list" where
  "uniqueDates allDates = map parseISO (arrayFromSet (map format_yyyyMMdd allDates))"

definition fetchBookedDates ::
  "DateFns \<Rightarrow> 'a FormState_scheme \<Rightarrow> Booking list PostgrestResponse \<Rightarrow> 'a FormState_scheme" where
  "fetchBookedDates lib s response =
     (case qerror response of
        Some e \<Rightarrow> s\<lparr>error := Some ''Failed to fetch available dates''\<rparr>
      | None \<Rightarrow>
         (case data response of
            None \<Rightarrow> s\<lparr>error := Some ''Failed to fetch available dates''\<rparr>
          | Some rows \<Rightarrow>
             (case collectDays lib rows [] of
                Inl e \<Rightarrow> s\<lparr>error := Some ''Failed to fetch available dates''\<rparr>
              | Inr allDates \<Rightarrow> s\<lparr>bookedDates := uniqueDates allDates\<rparr>)))"

subsection \<open>Availability\<close>

definition isDateBooked :: "Date list \<Rightarrow> Date \<Rightarrow> bool" where
  "isDateBooked booked date = list_ex (\<lambda>bookedDate. isSameDay bookedDate date) booked"

text \<open>
  The range check that \<^verbatim>\<open>handleDateChange\<close> and \<^verbatim>\<open>handleSubmit\<close> both write inline:
  \<^verbatim>\<open>eachDayOfInterval({ start, end }).some(date => isDateBooked(date))\<close>.
\<close>

definition rangeHasConflict :: "DateFns \<Rightarrow> Date list \<Rightarrow> Date \<Rightarrow> Date \<Rightarrow> exn + bool" where
  "rangeHasConflict lib booked start endDate =
     (case eachDayOfInterval lib start endDate of
        Inl e \<Rightarrow> Inl e
      | Inr daysToCheck \<Rightarrow> Inr (list_ex (isDateBooked booked) daysToCheck))"

subsection \<open>Date selection\<close>

datatype DateField = CheckIn | CheckOut

text \<open>
  \<^verbatim>\<open>handleDateChange(type, date)\<close>. The result \<open>Inl RangeError\<close> is the exception of
  \<^verbatim>\<open>eachDayOfInterval\<close> (release 2) leaving the handler, which nothing catches: no state
  cell is set.
\<close>

definition commitSelection ::
  "DateFns \<Rightarrow> 'a FormState_scheme \<Rightarrow> BookingDetails \<Rightarrow> exn + 'a FormState_scheme" where
  \<comment> \<open>the tail of the handler: the range check, then \<^verbatim>\<open>setBookingDetails\<close> and \<^verbatim>\<open>setError(null)\<close>\<close>
  "commitSelection lib s newBookingDetails =
     (case (checkIn newBookingDetails, checkOut newBookingDetails) of
        (Some ci, Some co) \<Rightarrow>
          (case rangeHasConflict lib (bookedDates s) ci co of
             Inl e \<Rightarrow> Inl e
           | Inr conflict \<Rightarrow>
               if conflict
               then Inr (s\<lparr>error := Some ''Some days in this range are already booked''\<rparr>)
               else Inr (s\<lparr>bookingDetails := newBookingDetails, error := None\<rparr>))
      | _ \<Rightarrow> Inr (s\<lparr>bookingDetails := newBookingDetails, error := None\<rparr>))"

definition handleDateChange ::
  "DateFns \<Rightarrow> 'a FormState_scheme \<Rightarrow> DateField \<Rightarrow> Date option
     \<Rightarrow> exn + 'a FormState_scheme" where
  "handleDateChange lib s type date' =
     (case date' of
        None \<Rightarrow> Inr s
      | Some date \<Rightarrow>
         (case type of
            CheckIn \<Rightarrow>
              if isDateBooked (bookedDates s) date
              then Inr (s\<lparr>error := Some ''This date is already booked''\<rparr>)
              else commitSelection lib s
                (case checkOut (bookingDetails s) of
                   Some co \<Rightarrow>
                     if date \<ge> co
                     then (bookingDetails s)\<lparr>checkIn := Some date, checkOut := None\<rparr>
                     else (bookingDetails s)\<lparr>checkIn := Some date\<rparr>
                 | None \<Rightarrow> (bookingDetails s)\<lparr>checkIn := Some date\<rparr>)
          | CheckOut \<Rightarrow>
              if isDateBooked (bookedDates s) date
              then Inr (s\<lparr>error := Some ''This date is already booked''\<rparr>)
              else commitSelection lib s ((bookingDetails s)\<lparr>checkOut := Some date\<rparr>)))"

subsection \<open>Submission\<close>

text \<open>
  The parameters of the checkout session request that depend on the booking (the constant
  ones, such as the currency and the return addresses, are left out), the answer of the
  payment provider, and what \<^verbatim>\<open>handleSubmit\<close> leaves behind: the component state, the
  request it sent if it sent one, and the address the browser was sent to.
\<close>

record CheckoutParams =
  customer_email :: string
  product_name :: string
  unit_amount :: number
  metadata_apartmentId :: string
  metadata_checkIn :: Date
  metadata_checkOut :: Date
  metadata_email :: string
  metadata_guestName :: string
  metadata_price :: number
  metadata_couponCode :: "string option"
  metadata_discountPercent :: "number option"

datatype Body = NotJson string | Json "string option"

datatype FetchResult = Rejected string | Response bool Body

record 's SubmitResult =
  state :: 's
  request :: "CheckoutParams option"
  location :: "string option"

text \<open>
  The checks at the head of the \<^verbatim>\<open>try\<close> block of \<^verbatim>\<open>handleSubmit\<close>, the same in every
  variant of the form; \<open>Inl\<close> carries the message of the \<^verbatim>\<open>Error\<close> thrown. A date is
  always truthy; a string is falsy when it is missing or empty.
\<close>

definition validateSubmission ::
  "DateFns \<Rightarrow> BookingDetails \<Rightarrow> Date list
     \<Rightarrow> string + (Date \<times> Date \<times> string \<times> string)" where
  "validateSubmission lib details booked =
     (case (checkIn details, checkOut details, guestEmail details, guestName details) of
        (Some ci, Some co, Some email, Some gname) \<Rightarrow>
          if email = [] \<or> gname = []
          then Inl ''Please fill in all required fields''
          else if co \<le> ci
          then Inl ''Check-out date must be after check-in date''
          else
            (case rangeHasConflict lib booked ci co of
               Inl e \<Rightarrow> Inl ''Invalid interval''
             | Inr conflict \<Rightarrow>
                 if conflict then Inl ''Some days in this range are already booked''
                 else Inr (ci, co, email, gname))
      | _ \<Rightarrow> Inl ''Please fill in all required fields'')"

text \<open>The request, the \<^verbatim>\<open>fetch\<close> and the handling of its answer, up to \<^verbatim>\<open>finally\<close>.\<close>

definition checkout ::
  "'a FormState_scheme \<Rightarrow> (CheckoutParams \<Rightarrow> FetchResult) \<Rightarrow> CheckoutParams
     \<Rightarrow> 'a FormState_scheme SubmitResult" where
  "checkout s stripe params =
     (case stripe params of
        Rejected msg \<Rightarrow>
          \<lparr>state = s\<lparr>isLoading := False, error := Some msg\<rparr>,
           request = Some params, location = None\<rparr>
      | Response ok body \<Rightarrow>
          if \<not> ok
          then \<lparr>state = s\<lparr>isLoading := False, error := Some ''Failed to create checkout session''\<rparr>,
                request = Some params, location = None\<rparr>
          else
            (case body of
               NotJson msg \<Rightarrow>
                 \<lparr>state = s\<lparr>isLoading := False, error := Some msg\<rparr>,
                  request = Some params, location = None\<rparr>
             | Json url \<Rightarrow>
                 \<lparr>state = s\<lparr>isLoading := False, error := None\<rparr>,
                  request = Some params, location = url\<rparr>))"

definition handleSubmit ::
  "DateFns \<Rightarrow> 'a FormState_scheme \<Rightarrow> Apartment \<Rightarrow> (CheckoutParams \<Rightarrow> FetchResult)
     \<Rightarrow> 'a FormState_scheme SubmitResult" where
  "handleSubmit lib s apartment stripe =
     (case validateSubmission lib (bookingDetails s) (bookedDates s) of
        Inl msg \<Rightarrow>
          \<lparr>state = s\<lparr>isLoading := False, error := Some msg\<rparr>, request = None, location = None\<rparr>
      | Inr (ci, co, email, gname) \<Rightarrow>
          let numberOfNights = differenceInDays co ci;
              totalPrice = number_mul (number_of_int numberOfNights) (pricePerNight apartment);
              priceInCents = Math_round (number_mul totalPrice (Finite 100))
          in checkout s stripe
               \<lparr>customer_email = email, product_name = name apartment,
                unit_amount = priceInCents, metadata_apartmentId = id_Apartment apartment,
                metadata_checkIn = ci, metadata_checkOut = co, metadata_email = email,
                metadata_guestName = gname, metadata_price = totalPrice,
                metadata_couponCode = None, metadata_discountPercent = None\<rparr>)"

section \<open>The form with coupons\<close>

text \<open>
  The variant of the form that takes a coupon reads the nightly price under the name
  \<^verbatim>\<open>price_per_night\<close> and keeps three more state cells.
\<close>

record Coupon =
  code :: string
  discount_percent :: number
  is_active :: bool
  expires_at :: Date

record ApartmentRow =
  id_ApartmentRow :: string
  name_ApartmentRow :: string
  price_per_night :: number

record CouponFormState = FormState +
  couponCode :: string
  appliedCoupon :: "Coupon option"
  isValidatingCoupon :: bool

text \<open>
  The coupon table of the store: out of reach (with the error the client reports), or its
  rows. \<^verbatim>\<open>.single()\<close> answers with the row when the filtered result has exactly one,
  and with an error otherwise, also when it has none.
\<close>

datatype 'row Table = Unavailable string | Rows "'row list"

definition single :: "'row list \<Rightarrow> 'row PostgrestResponse" where
  "single rows =
     (case rows of
        [row] \<Rightarrow> \<lparr>data = Some row, qerror = None\<rparr>
      | _ \<Rightarrow> \<lparr>data = None, qerror = Some ''PGRST116''\<rparr>)"

definition matchesCoupon :: "string \<Rightarrow> Date \<Rightarrow> Coupon \<Rightarrow> bool" where
  \<comment> \<open>\<^verbatim>\<open>.eq('code', code).eq('is_active', true).gt('expires_at', now)\<close>\<close>
  "matchesCoupon c now row = (code row = c \<and> is_active row \<and> expires_at row > now)"

definition selectCoupon :: "Coupon Table \<Rightarrow> string \<Rightarrow> Date \<Rightarrow> Coupon PostgrestResponse" where
  "selectCoupon coupons c now =
     (case coupons of
        Unavailable e \<Rightarrow> \<lparr>data = None, qerror = Some e\<rparr>
      | Rows rows \<Rightarrow> single (filter (matchesCoupon c now) rows))"

definition validateCoupon ::
  "CouponFormState \<Rightarrow> Coupon Table \<Rightarrow> Date \<Rightarrow> string \<Rightarrow> CouponFormState \<times> bool" where
  "validateCoupon s coupons now c =
     (let response = selectCoupon coupons c now in
      case qerror response of
        Some e \<Rightarrow>
          (s\<lparr>error := Some ''Failed to validate coupon'', appliedCoupon := None,
             isValidatingCoupon := False\<rparr>, False)
      | None \<Rightarrow>
          (case data response of
             Some row \<Rightarrow>
               (s\<lparr>error := None, appliedCoupon := Some row, isValidatingCoupon := False\<rparr>, True)
           | None \<Rightarrow>
               (s\<lparr>error := Some ''Invalid or expired coupon code'', appliedCoupon := None,
                  isValidatingCoupon := False\<rparr>, False)))"

text \<open>
  \<^verbatim>\<open>String.prototype.trim\<close>. A character here is one of 256 code units, so of the white
  space that \<^verbatim>\<open>trim\<close> strips the model has the tab, the line terminators, the space and
  the no-break space U+00A0.
\<close>

definition isWhiteSpace :: "char \<Rightarrow> bool" where
  "isWhiteSpace ch =
     (ch \<in> set [CHR 0x09, CHR 0x0A, CHR 0x0B, CHR 0x0C, CHR 0x0D, CHR 0x20, CHR 0xA0])"

definition trim :: "string \<Rightarrow> string" where
  "trim str = rev (dropWhile isWhiteSpace (rev (dropWhile isWhiteSpace str)))"

definition handleApplyCoupon ::
  "CouponFormState \<Rightarrow> Coupon Table \<Rightarrow> Date \<Rightarrow> CouponFormState" where
  "handleApplyCoupon s coupons now =
     (if trim (couponCode s) = []
      then s\<lparr>error := Some ''Please enter a coupon code''\<rparr>
      else fst (validateCoupon s coupons now (trim (couponCode s))))"

definition calculateTotalPrice :: "number \<Rightarrow> Coupon option \<Rightarrow> int \<Rightarrow> number" where
  "calculateTotalPrice pricePerNight' applied numberOfNights =
     (let totalPrice = number_mul (number_of_int numberOfNights) pricePerNight' in
      case applied of
        Some coupon \<Rightarrow>
          (let discount = number_mul totalPrice (number_div100 (discount_percent coupon))
           in number_sub totalPrice discount)
      | None \<Rightarrow> totalPrice)"

definition handleSubmit_coupon ::
  "DateFns \<Rightarrow> CouponFormState \<Rightarrow> ApartmentRow \<Rightarrow> (CheckoutParams \<Rightarrow> FetchResult)
     \<Rightarrow> CouponFormState SubmitResult" where
  "handleSubmit_coupon lib s apartment stripe =
     (case validateSubmission lib (bookingDetails s) (bookedDates s) of
        Inl msg \<Rightarrow>
          \<lparr>state = s\<lparr>isLoading := False, error := Some msg\<rparr>, request = None, location = None\<rparr>
      | Inr (ci, co, email, gname) \<Rightarrow>
          let numberOfNights = differenceInDays co ci;
              totalPrice =
                calculateTotalPrice (price_per_night apartment) (appliedCoupon s) numberOfNights;
              priceInCents = Math_round (number_mul totalPrice (Finite 100))
          in checkout s stripe
               \<lparr>customer_email = email, product_name = name_ApartmentRow apartment,
                unit_amount = priceInCents, metadata_apartmentId = id_ApartmentRow apartment,
                metadata_checkIn = ci, metadata_checkOut = co, metadata_email = email,
                metadata_guestName = gname, metadata_price = totalPrice,
                metadata_couponCode = map_option code (appliedCoupon s),
                metadata_discountPercent = map_option discount_percent (appliedCoupon s)\<rparr>)"

subsection \<open>The coupon field of the calendar\<close>

text \<open>
  \<^verbatim>\<open>BookingCalendar\<close> keeps its own coupon cells and its own \<^verbatim>\<open>validateCoupon\<close>, which
  reads the code from its state, reports through the translation \<open>t\<close> and tells the
  parent through \<^verbatim>\<open>onCouponApply\<close>: the list returned holds the arguments of those calls.
\<close>

record CalendarState =
  calendarCouponCode :: string
  calendarIsValidatingCoupon :: bool
  couponError :: "string option"
  calendarAppliedCoupon :: "Coupon option"

definition validateCoupon_calendar ::
  "(string \<Rightarrow> string) \<Rightarrow> CalendarState \<Rightarrow> Coupon Table \<Rightarrow> Date
     \<Rightarrow> CalendarState \<times> Coupon option list" where
  "validateCoupon_calendar t s coupons now =
     (if trim (calendarCouponCode s) = []
      then (s\<lparr>couponError := Some (t ''please.enter.coupon'')\<rparr>, [])
      else
        let response = selectCoupon coupons (trim (calendarCouponCode s)) now in
        case qerror response of
          Some e \<Rightarrow>
            (s\<lparr>couponError := Some (t ''coupon.invalid''), calendarAppliedCoupon := None,
               calendarIsValidatingCoupon := False\<rparr>, [None])
        | None \<Rightarrow>
            (case data response of
               Some row \<Rightarrow>
                 (s\<lparr>couponError := None, calendarAppliedCoupon := Some row,
                    calendarIsValidatingCoupon := False\<rparr>, [Some row])
             | None \<Rightarrow>
                 (s\<lparr>couponError := Some (t ''coupon.invalid''), calendarAppliedCoupon := None,
                    calendarIsValidatingCoupon := False\<rparr>, [None])))"

section \<open>Days of an interval\<close>

lemma msPerDay_pos: "0 < msPerDay"
  by (simp add: msPerDay_def)

lemma startOfDay_div: "startOfDay d = parseISO (format_yyyyMMdd d)"
  by (simp add: startOfDay_def parseISO_def format_yyyyMMdd_def minus_mod_eq_div_mult)

lemma format_parseISO: "format_yyyyMMdd (parseISO k) = k"
  using msPerDay_pos by (simp add: parseISO_def format_yyyyMMdd_def)

lemma mult_le_iff_le_div:
  fixes m k e :: int
  assumes "0 < m"
  shows "k * m \<le> e \<longleftrightarrow> k \<le> e div m"
proof
  assume "k * m \<le> e"
  then have "(k * m) div m \<le> e div m" using assms by (rule zdiv_mono1)
  then show "k \<le> e div m" using assms by simp
next
  assume "k \<le> e div m"
  then have "k * m \<le> (e div m) * m" using assms by (simp add: mult_right_mono)
  also have "\<dots> \<le> e"
  proof -
    have "0 \<le> e mod m" using assms by simp
    then show ?thesis by (simp add: minus_mod_eq_div_mult [symmetric])
  qed
  finally show "k * m \<le> e" .
qed

lemma parseISO_le_iff: "parseISO k \<le> e \<longleftrightarrow> k \<le> format_yyyyMMdd e"
  using mult_le_iff_le_div [OF msPerDay_pos] by (simp add: parseISO_def format_yyyyMMdd_def)

lemma startOfDay_next: "startOfDay (parseISO k + msPerDay) = parseISO (k + 1)"
proof -
  have "parseISO k + msPerDay = parseISO (k + 1)"
    by (simp add: parseISO_def algebra_simps)
  then show ?thesis by (simp add: startOfDay_div format_parseISO)
qed

lemma eachDayLoop_upto:
  "j = format_yyyyMMdd e \<Longrightarrow> eachDayLoop (parseISO k) e = map parseISO [k..j]"
proof (induction k j rule: upto.induct)
  case (1 i j)
  show ?case
  proof (cases "i \<le> j")
    case True
    then have "parseISO i \<le> e" using 1(2) by (simp add: parseISO_le_iff)
    then have "eachDayLoop (parseISO i) e = parseISO i # eachDayLoop (parseISO (i + 1)) e"
      by (subst eachDayLoop.simps) (simp add: startOfDay_next)
    also have "eachDayLoop (parseISO (i + 1)) e = map parseISO [i + 1..j]"
      using 1 True by simp
    finally show ?thesis using True by (simp add: upto_rec1)
  next
    case False
    then have "\<not> parseISO i \<le> e" using 1(2) by (simp add: parseISO_le_iff)
    then have "eachDayLoop (parseISO i) e = []"
      by (subst eachDayLoop.simps) simp
    then show ?thesis using False by simp
  qed
qed

lemma eachDayOfInterval_upto:
  "eachDayOfInterval lib start endDate =
     (if start \<le> endDate
      then Inr (map parseISO [format_yyyyMMdd start..format_yyyyMMdd endDate])
      else
        (case lib of
           V2 \<Rightarrow> Inl RangeError
         | V3 \<Rightarrow> Inr (rev (map parseISO [format_yyyyMMdd endDate..format_yyyyMMdd start]))))"
  by (simp add: eachDayOfInterval_def startOfDay_div eachDayLoop_upto split: DateFns.split)

lemma parseISO_eq_iff: "parseISO a = parseISO b \<longleftrightarrow> a = b"
  using msPerDay_pos by (simp add: parseISO_def)

lemma isSameDay_format: "isSameDay a b \<longleftrightarrow> format_yyyyMMdd a = format_yyyyMMdd b"
  by (simp add: isSameDay_def startOfDay_div parseISO_eq_iff)

lemma isDateBooked_iff:
  "isDateBooked booked date \<longleftrightarrow>
     (\<exists>b \<in> set booked. format_yyyyMMdd b = format_yyyyMMdd date)"
  by (simp add: isDateBooked_def list_ex_iff isSameDay_format)

lemma rangeHasConflict_iff:
  "rangeHasConflict lib booked start endDate =
     (if start \<le> endDate
      then Inr (\<exists>b \<in> set booked. format_yyyyMMdd start \<le> format_yyyyMMdd b
                  \<and> format_yyyyMMdd b \<le> format_yyyyMMdd endDate)
      else
        (case lib of
           V2 \<Rightarrow> Inl RangeError
         | V3 \<Rightarrow> Inr (\<exists>b \<in> set booked. format_yyyyMMdd endDate \<le> format_yyyyMMdd b
                  \<and> format_yyyyMMdd b \<le> format_yyyyMMdd start)))"
  by (auto simp: rangeHasConflict_def eachDayOfInterval_upto list_ex_iff isDateBooked_iff
      format_parseISO split: DateFns.split)

lemma set_arrayFromSet: "set (arrayFromSet xs) = set xs"
  by (induction xs rule: arrayFromSet.induct) auto

lemma distinct_arrayFromSet: "distinct (arrayFromSet xs)"
  by (induction xs rule: arrayFromSet.induct) (auto simp: set_arrayFromSet)

lemma collectDays_ok:
  "\<forall>b \<in> set rows. check_in b \<le> check_out b \<Longrightarrow>
   collectDays lib rows acc = Inr (acc @ concat (map (\<lambda>b.
      map parseISO [format_yyyyMMdd (check_in b)..format_yyyyMMdd (check_out b)]) rows))"
  by (induction rows arbitrary: acc) (simp_all add: eachDayOfInterval_upto)

lemma collectDays_fails:
  "\<exists>b \<in> set rows. \<not> check_in b \<le> check_out b \<Longrightarrow> collectDays V2 rows acc = Inl RangeError"
  by (induction rows arbitrary: acc) (auto simp: eachDayOfInterval_upto)

lemma startOfDay_le_iff:
  "startOfDay a \<le> startOfDay b \<longleftrightarrow> format_yyyyMMdd a \<le> format_yyyyMMdd b"
  by (simp add: startOfDay_div parseISO_le_iff format_parseISO)

lemma bookedDates_fetch_ok:
  assumes "qerror response = None" "data response = Some rows"
    and "\<forall>b \<in> set rows. check_in b \<le> check_out b"
  shows "bookedDates (fetchBookedDates lib s response) =
     map parseISO (arrayFromSet (concat (map (\<lambda>b.
        [format_yyyyMMdd (check_in b)..format_yyyyMMdd (check_out b)]) rows)))"
proof -
  have "map format_yyyyMMdd (concat (map (\<lambda>b.
      map parseISO [format_yyyyMMdd (check_in b)..format_yyyyMMdd (check_out b)]) rows))
    = concat (map (\<lambda>b. [format_yyyyMMdd (check_in b)..format_yyyyMMdd (check_out b)]) rows)"
    by (induction rows) (simp_all add: comp_def format_parseISO)
  then show ?thesis
    using assms by (simp add: fetchBookedDates_def collectDays_ok uniqueDates_def)
qed

lemma startOfDay_mono: "a \<le> b \<Longrightarrow> startOfDay a \<le> startOfDay b"
  using msPerDay_pos by (simp add: startOfDay_le_iff format_yyyyMMdd_def zdiv_mono1)

lemma rangeHasConflict_span:
  assumes "start \<le> endDate"
  shows "rangeHasConflict lib booked start endDate =
      Inr (\<exists>d. startOfDay start \<le> startOfDay d \<and> startOfDay d \<le> startOfDay endDate
             \<and> isDateBooked booked d)"
proof -
  have "(\<exists>b \<in> set booked. format_yyyyMMdd start \<le> format_yyyyMMdd b
            \<and> format_yyyyMMdd b \<le> format_yyyyMMdd endDate)
      \<longleftrightarrow> (\<exists>d. startOfDay start \<le> startOfDay d \<and> startOfDay d \<le> startOfDay endDate
           \<and> isDateBooked booked d)"
    unfolding startOfDay_le_iff isDateBooked_iff by metis
  then show ?thesis using assms by (simp add: rangeHasConflict_iff)
qed

section \<open>The set of booked dates\<close>

text \<open>
  Claim C1, as the code has it. When the load succeeds and no booked interval of the list
  ends before it starts, a date is booked exactly when its day (the time of day stripped)
  lies between the day of \<^verbatim>\<open>check_in\<close> and the day of \<^verbatim>\<open>check_out\<close>, both included, of
  some interval of the list; and the list of booked dates has no duplicates.
\<close>

theorem fetchBookedDates_isDateBooked:
  assumes "qerror response = None" and "data response = Some intervals"
    and "\<forall>b \<in> set intervals. check_in b \<le> check_out b"
  shows "(isDateBooked (bookedDates (fetchBookedDates lib s response)) d \<longleftrightarrow>
            (\<exists>b \<in> set intervals. startOfDay (check_in b) \<le> startOfDay d
                \<and> startOfDay d \<le> startOfDay (check_out b)))
         \<and> distinct (bookedDates (fetchBookedDates lib s response))"
proof -
  let ?days = "concat (map (\<lambda>b.
        [format_yyyyMMdd (check_in b)..format_yyyyMMdd (check_out b)]) intervals)"
  have eq: "bookedDates (fetchBookedDates lib s response) = map parseISO (arrayFromSet ?days)"
    using assms by (rule bookedDates_fetch_ok)
  have "isDateBooked (map parseISO (arrayFromSet ?days)) d \<longleftrightarrow> format_yyyyMMdd d \<in> set ?days"
    by (auto simp: isDateBooked_iff format_parseISO set_arrayFromSet)
  also have "\<dots> \<longleftrightarrow> (\<exists>b \<in> set intervals. format_yyyyMMdd (check_in b) \<le> format_yyyyMMdd d
      \<and> format_yyyyMMdd d \<le> format_yyyyMMdd (check_out b))"
    by auto
  finally have booked: "isDateBooked (map parseISO (arrayFromSet ?days)) d \<longleftrightarrow>
      (\<exists>b \<in> set intervals. startOfDay (check_in b) \<le> startOfDay d
          \<and> startOfDay d \<le> startOfDay (check_out b))"
    by (simp add: startOfDay_le_iff)
  have "distinct (map parseISO (arrayFromSet ?days))"
    by (simp add: distinct_map distinct_arrayFromSet inj_on_def parseISO_eq_iff)
  with booked eq show ?thesis by simp
qed

text \<open>
  An instance: the interval 2024-06-01 to 2024-06-03 books 2024-06-02 at ten o'clock.
\<close>

theorem fetchBookedDates_isDateBooked_witness:
  "isDateBooked (bookedDates (fetchBookedDates V3
      (initialState \<lparr>id_Apartment = ''gintaras'', name = ''Gintaras'', pricePerNight = Finite 100\<rparr>)
      \<lparr>data = Some [\<lparr>check_in = 1717200000000, check_out = 1717372800000\<rparr>], qerror = None\<rparr>))
     1717322400000
   \<and> distinct (bookedDates (fetchBookedDates V3
      (initialState \<lparr>id_Apartment = ''gintaras'', name = ''Gintaras'', pricePerNight = Finite 100\<rparr>)
      \<lparr>data = Some [\<lparr>check_in = 1717200000000, check_out = 1717372800000\<rparr>], qerror = None\<rparr>))"
  using fetchBookedDates_isDateBooked
    [of "\<lparr>data = Some [\<lparr>check_in = 1717200000000, check_out = 1717372800000\<rparr>], qerror = None\<rparr>"
        "[\<lparr>check_in = 1717200000000, check_out = 1717372800000\<rparr>]"
        V3 "initialState \<lparr>id_Apartment = ''gintaras'', name = ''Gintaras'', pricePerNight = Finite 100\<rparr>"
        1717322400000]
  by (simp add: startOfDay_def msPerDay_def)

text \<open>
  Without the condition on the intervals the equivalence fails, whichever release of
  date-fns runs. Take an interval from 2024-06-05 back to 2024-06-03, followed by the
  interval 2024-06-01 to 2024-06-02. Under release 2 \<^verbatim>\<open>eachDayOfInterval\<close> throws, the
  \<^verbatim>\<open>catch\<close> abandons the whole list, and 2024-06-01, a day of the second interval, is
  not booked. Under release 3 the days of the first interval are enumerated backwards, and
  2024-06-04 is booked although it is not on or after the check-in of any interval.
\<close>

theorem fetchBookedDates_malformed_counterexample:
  "\<not> (isDateBooked (bookedDates (fetchBookedDates V2
        (initialState \<lparr>id_Apartment = ''gintaras'', name = ''Gintaras'', pricePerNight = Finite 100\<rparr>)
        \<lparr>data = Some [\<lparr>check_in = 1717545600000, check_out = 1717372800000\<rparr>,
                       \<lparr>check_in = 1717200000000, check_out = 1717286400000\<rparr>],
         qerror = None\<rparr>)) 1717200000000
      \<longleftrightarrow>
      (\<exists>b \<in> set [\<lparr>check_in = 1717545600000, check_out = 1717372800000\<rparr>,
                    \<lparr>check_in = 1717200000000, check_out = 1717286400000\<rparr>].
          startOfDay (check_in b) \<le> startOfDay 1717200000000
          \<and> startOfDay 1717200000000 \<le> startOfDay (check_out b)))
   \<and> \<not> (isDateBooked (bookedDates (fetchBookedDates V3
        (initialState \<lparr>id_Apartment = ''gintaras'', name = ''Gintaras'', pricePerNight = Finite 100\<rparr>)
        \<lparr>data = Some [\<lparr>check_in = 1717545600000, check_out = 1717372800000\<rparr>,
                       \<lparr>check_in = 1717200000000, check_out = 1717286400000\<rparr>],
         qerror = None\<rparr>)) 1717459200000
      \<longleftrightarrow>
      (\<exists>b \<in> set [\<lparr>check_in = 1717545600000, check_out = 1717372800000\<rparr>,
                    \<lparr>check_in = 1717200000000, check_out = 1717286400000\<rparr>].
          startOfDay (check_in b) \<le> startOfDay 1717459200000
          \<and> startOfDay 1717459200000 \<le> startOfDay (check_out b)))"
proof -
  let ?rows = "[\<lparr>check_in = 1717545600000, check_out = 1717372800000\<rparr>,
                \<lparr>check_in = 1717200000000, check_out = 1717286400000\<rparr>]"
  have dropped: "collectDays V2 ?rows [] = Inl RangeError"
    by (simp add: eachDayOfInterval_def)
  have backwards: "collectDays V3 ?rows [] =
      Inr [1717545600000, 1717459200000, 1717372800000, 1717200000000, 1717286400000]"
    by (simp add: eachDayOfInterval_upto format_yyyyMMdd_def parseISO_def msPerDay_def
        upto_rec1)
  show ?thesis
    by (simp del: collectDays.simps
        add: fetchBookedDates_def dropped backwards initialState_def uniqueDates_def
          isDateBooked_def isSameDay_def startOfDay_def format_yyyyMMdd_def parseISO_def
          msPerDay_def)
qed

section \<open>The range check\<close>

text \<open>
  Claim C2. For \<open>start\<close> before \<open>endDate\<close> the range check returns, and its answer is
  true exactly when some date whose day lies between the day of \<open>start\<close> and the day of
  \<open>endDate\<close>, both included, is booked. So it is false when no date of that span is
  booked, and true once a date strictly between \<open>start\<close> and \<open>endDate\<close> is put among
  the booked dates.
\<close>

theorem rangeHasConflict_inclusive:
  assumes "start < endDate"
  shows "rangeHasConflict lib booked start endDate =
           Inr (\<exists>d. startOfDay start \<le> startOfDay d \<and> startOfDay d \<le> startOfDay endDate
                  \<and> isDateBooked booked d)
         \<and> ((\<forall>d. startOfDay start \<le> startOfDay d \<and> startOfDay d \<le> startOfDay endDate
                  \<longrightarrow> \<not> isDateBooked booked d)
              \<longrightarrow> rangeHasConflict lib booked start endDate = Inr False)
         \<and> (\<forall>b booked'. start < b \<and> b < endDate \<and> set booked' = insert b (set booked)
              \<longrightarrow> rangeHasConflict lib booked' start endDate = Inr True)"
proof -
  have le: "start \<le> endDate" using assms by simp
  have ins: "rangeHasConflict lib booked' start endDate = Inr True"
    if "start < b" "b < endDate" "set booked' = insert b (set booked)" for b booked'
  proof -
    have "isDateBooked booked' b" using that(3) by (auto simp: isDateBooked_iff)
    moreover have "startOfDay start \<le> startOfDay b" "startOfDay b \<le> startOfDay endDate"
      using that(1,2) by (simp_all add: startOfDay_mono)
    ultimately show ?thesis unfolding rangeHasConflict_span [OF le] by blast
  qed
  show ?thesis using rangeHasConflict_span [OF le, where booked = booked and lib = lib] ins by auto
qed

text \<open>
  An instance: the range 2024-06-05 to 2024-06-07 is free when nothing is booked, and in
  conflict once 2024-06-06 at eight o'clock is booked.
\<close>

theorem rangeHasConflict_inclusive_witness:
  "(1717545600000 :: int) < 1717718400000
   \<and> rangeHasConflict V3 [] 1717545600000 1717718400000 = Inr False
   \<and> rangeHasConflict V3 [1717660800000] 1717545600000 1717718400000 = Inr True"
proof -
  have h: "(1717545600000 :: int) < 1717718400000" by simp
  note t = rangeHasConflict_inclusive [OF h, where booked = "[]" and lib = V3]
  have free: "rangeHasConflict V3 [] 1717545600000 1717718400000 = Inr False"
    using t by (simp add: isDateBooked_def)
  from t have "(1717545600000 :: int) < 1717660800000 \<and> (1717660800000 :: int) < 1717718400000
      \<and> set [1717660800000 :: int] = insert 1717660800000 (set [])
      \<longrightarrow> rangeHasConflict V3 [1717660800000] 1717545600000 1717718400000 = Inr True"
    by blast
  then have "rangeHasConflict V3 [1717660800000] 1717545600000 1717718400000 = Inr True"
    by simp
  with h free show ?thesis by simp
qed

section \<open>Submission and date selection\<close>

lemma validateSubmission_Inr_iff:
  "validateSubmission lib details booked = Inr (ci, co, email, gname) \<longleftrightarrow>
     checkIn details = Some ci \<and> checkOut details = Some co
     \<and> guestEmail details = Some email \<and> email \<noteq> []
     \<and> guestName details = Some gname \<and> gname \<noteq> []
     \<and> ci < co
     \<and> (\<forall>d. startOfDay ci \<le> startOfDay d \<and> startOfDay d \<le> startOfDay co
            \<longrightarrow> \<not> isDateBooked booked d)"
proof (cases "checkIn details")
  case None
  then show ?thesis by (simp add: validateSubmission_def)
next
  case ci': (Some ci')
  show ?thesis
  proof (cases "checkOut details")
    case None
    then show ?thesis using ci' by (simp add: validateSubmission_def)
  next
    case co': (Some co')
    show ?thesis
    proof (cases "guestEmail details")
      case None
      then show ?thesis using ci' co' by (simp add: validateSubmission_def)
    next
      case email': (Some email')
      show ?thesis
      proof (cases "guestName details")
        case None
        then show ?thesis using ci' co' email' by (simp add: validateSubmission_def)
      next
        case gname': (Some gname')
        show ?thesis
        proof (cases "ci' < co'")
          case True
          then have "ci' \<le> co'" by simp
          from rangeHasConflict_span [OF this, where booked = booked and lib = lib] True show ?thesis
            using ci' co' email' gname' by (auto simp: validateSubmission_def)
        next
          case False
          then show ?thesis
            using ci' co' email' gname' by (auto simp: validateSubmission_def)
        qed
      qed
    qed
  qed
qed


lemma request_checkout: "request (checkout s stripe params) = Some params"
  by (simp add: checkout_def split: FetchResult.split Body.split)

lemma bookingDetails_checkout: "bookingDetails (state (checkout s stripe params)) = bookingDetails s"
  by (simp add: checkout_def split: FetchResult.split Body.split)





section \<open>A failed load of the booked intervals\<close>

text \<open>
  Claim C3, as the code has it. When the load of the booked intervals fails, the form sets
  the message \<^verbatim>\<open>Failed to fetch available dates\<close> and changes nothing else: the list of
  booked dates stays as it was. In a session whose list was empty no date is booked
  after the failure, and submission is not blocked: every draft with the four fields
  present and the check-out after the check-in is sent to the checkout.
\<close>

theorem fetchBookedDates_failure_fails_open:
  fixes s :: "'a FormState_scheme"
  assumes "qerror response = Some e"
  shows "fetchBookedDates lib s response = s\<lparr>error := Some ''Failed to fetch available dates''\<rparr>
     \<and> (bookedDates s = [] \<longrightarrow>
          (\<forall>d. \<not> isDateBooked (bookedDates (fetchBookedDates lib s response)) d)
          \<and> (\<forall>(s' :: 'a FormState_scheme) ci co gname email.
                bookedDates s' = bookedDates (fetchBookedDates lib s response)
                \<and> checkIn (bookingDetails s') = Some ci \<and> checkOut (bookingDetails s') = Some co
                \<and> guestName (bookingDetails s') = Some gname \<and> gname \<noteq> []
                \<and> guestEmail (bookingDetails s') = Some email \<and> email \<noteq> []
                \<and> ci < co
                \<longrightarrow> request (handleSubmit lib s' apartment stripe) \<noteq> None))"
proof -
  have eq: "fetchBookedDates lib s response = s\<lparr>error := Some ''Failed to fetch available dates''\<rparr>"
    using assms by (simp add: fetchBookedDates_def)
  have sent: "request (handleSubmit lib s' apartment stripe) \<noteq> None"
    if "bookedDates s' = []" "checkIn (bookingDetails s') = Some ci"
      "checkOut (bookingDetails s') = Some co" "guestName (bookingDetails s') = Some gname"
      "gname \<noteq> []" "guestEmail (bookingDetails s') = Some email" "email \<noteq> []" "ci < co"
    for s' :: "'a FormState_scheme" and ci co gname email
  proof -
    have "validateSubmission lib (bookingDetails s') (bookedDates s') = Inr (ci, co, email, gname)"
      unfolding validateSubmission_Inr_iff using that by (simp add: isDateBooked_def)
    then show ?thesis by (simp add: handleSubmit_def request_checkout Let_def)
  qed
  show ?thesis unfolding eq using sent by (auto simp: isDateBooked_def)
qed

text \<open>
  An instance: in a fresh session a failed load sets the message, leaves 2024-06-05 free,
  and a complete draft for 2024-06-05 to 2024-06-07 is sent to the checkout.
\<close>

theorem fetchBookedDates_failure_fails_open_witness:
  "qerror \<lparr>data = None :: Booking list option, qerror = Some ''FetchError''\<rparr> = Some ''FetchError''
   \<and> error (fetchBookedDates V3
      (initialState \<lparr>id_Apartment = ''gintaras'', name = ''Gintaras'', pricePerNight = Finite 100\<rparr>)
      \<lparr>data = None, qerror = Some ''FetchError''\<rparr>) = Some ''Failed to fetch available dates''
   \<and> \<not> isDateBooked (bookedDates (fetchBookedDates V3
      (initialState \<lparr>id_Apartment = ''gintaras'', name = ''Gintaras'', pricePerNight = Finite 100\<rparr>)
      \<lparr>data = None, qerror = Some ''FetchError''\<rparr>)) 1717545600000
   \<and> request (handleSubmit V3
      \<lparr>bookingDetails = \<lparr>apartmentId = Some ''gintaras'', checkIn = Some 1717545600000,
         checkOut = Some 1717718400000, guestName = Some ''Ona'',
         guestEmail = Some ''ona@example.org''\<rparr>,
       isLoading = False, error = None, bookedDates = []\<rparr>
      \<lparr>id_Apartment = ''gintaras'', name = ''Gintaras'', pricePerNight = Finite 100\<rparr>
      (\<lambda>params. Response False (NotJson ''card_declined''))) \<noteq> None"
proof -
  let ?apt = "\<lparr>id_Apartment = ''gintaras'', name = ''Gintaras'', pricePerNight = Finite 100\<rparr>"
  let ?response = "\<lparr>data = None :: Booking list option, qerror = Some ''FetchError''\<rparr>"
  let ?stripe = "\<lambda>params :: CheckoutParams. Response False (NotJson ''card_declined'')"
  let ?s' = "\<lparr>bookingDetails = \<lparr>apartmentId = Some ''gintaras'', checkIn = Some 1717545600000,
         checkOut = Some 1717718400000, guestName = Some ''Ona'',
         guestEmail = Some ''ona@example.org''\<rparr>,
       isLoading = False, error = None, bookedDates = []\<rparr>"
  have h: "qerror ?response = Some ''FetchError''" by simp
  note t = fetchBookedDates_failure_fails_open
    [OF h, where s = "initialState ?apt" and apartment = ?apt and stripe = ?stripe
       and lib = V3]
  have fresh: "bookedDates (initialState ?apt) = []" by (simp add: initialState_def)
  from t have eq: "fetchBookedDates V3 (initialState ?apt) ?response
      = (initialState ?apt)\<lparr>error := Some ''Failed to fetch available dates''\<rparr>"
    by (rule conjunct1)
  have shown: "error (fetchBookedDates V3 (initialState ?apt) ?response)
      = Some ''Failed to fetch available dates''"
    unfolding eq by simp
  from t have "bookedDates (initialState ?apt) = [] \<longrightarrow>
      (\<forall>d. \<not> isDateBooked (bookedDates (fetchBookedDates V3 (initialState ?apt) ?response)) d)
      \<and> (\<forall>s' ci co gname email.
            bookedDates s' = bookedDates (fetchBookedDates V3 (initialState ?apt) ?response)
            \<and> checkIn (bookingDetails s') = Some ci \<and> checkOut (bookingDetails s') = Some co
            \<and> guestName (bookingDetails s') = Some gname \<and> gname \<noteq> []
            \<and> guestEmail (bookingDetails s') = Some email \<and> email \<noteq> []
            \<and> ci < co
            \<longrightarrow> request (handleSubmit V3 (s' :: FormState) ?apt ?stripe) \<noteq> None)"
    by (rule conjunct2)
  with fresh have free: "\<forall>d. \<not> isDateBooked
        (bookedDates (fetchBookedDates V3 (initialState ?apt) ?response)) d"
    and sub: "\<forall>s' ci co gname email.
            bookedDates s' = bookedDates (fetchBookedDates V3 (initialState ?apt) ?response)
            \<and> checkIn (bookingDetails s') = Some ci \<and> checkOut (bookingDetails s') = Some co
            \<and> guestName (bookingDetails s') = Some gname \<and> gname \<noteq> []
            \<and> guestEmail (bookingDetails s') = Some email \<and> email \<noteq> []
            \<and> ci < co
            \<longrightarrow> request (handleSubmit V3 (s' :: FormState) ?apt ?stripe) \<noteq> None"
    by blast+
  have "bookedDates ?s' = bookedDates (fetchBookedDates V3 (initialState ?apt) ?response)"
    unfolding eq by (simp add: initialState_def)
  with sub [rule_format, of ?s' 1717545600000 1717718400000 "''Ona''" "''ona@example.org''"]
  have "request (handleSubmit V3 ?s' ?apt ?stripe) \<noteq> None"
    by simp
  with h shown free show ?thesis by blast
qed

text \<open>
  The claim as stated fails in a fresh session: after the failed load the days
  2024-06-05 and 2024-06-07 are accepted as check-in and check-out (the first acceptance
  clears the error message), and the completed draft is sent to the checkout, for 20000
  cents.
\<close>

theorem fetchBookedDates_failure_counterexample:
  "fetchBookedDates V3
      (initialState \<lparr>id_Apartment = ''gintaras'', name = ''Gintaras'', pricePerNight = Finite 100\<rparr>)
      \<lparr>data = None, qerror = Some ''FetchError''\<rparr>
    = \<lparr>bookingDetails = \<lparr>apartmentId = Some ''gintaras'', checkIn = None, checkOut = None,
         guestName = None, guestEmail = None\<rparr>,
       isLoading = False, error = Some ''Failed to fetch available dates'', bookedDates = []\<rparr>
   \<and> handleDateChange V3
      \<lparr>bookingDetails = \<lparr>apartmentId = Some ''gintaras'', checkIn = None, checkOut = None,
         guestName = None, guestEmail = None\<rparr>,
       isLoading = False, error = Some ''Failed to fetch available dates'', bookedDates = []\<rparr>
      CheckIn (Some 1717545600000)
    = Inr \<lparr>bookingDetails = \<lparr>apartmentId = Some ''gintaras'', checkIn = Some 1717545600000,
         checkOut = None, guestName = None, guestEmail = None\<rparr>,
       isLoading = False, error = None, bookedDates = []\<rparr>
   \<and> handleDateChange V3
      \<lparr>bookingDetails = \<lparr>apartmentId = Some ''gintaras'', checkIn = Some 1717545600000,
         checkOut = None, guestName = None, guestEmail = None\<rparr>,
       isLoading = False, error = None, bookedDates = []\<rparr>
      CheckOut (Some 1717718400000)
    = Inr \<lparr>bookingDetails = \<lparr>apartmentId = Some ''gintaras'', checkIn = Some 1717545600000,
         checkOut = Some 1717718400000, guestName = None, guestEmail = None\<rparr>,
       isLoading = False, error = None, bookedDates = []\<rparr>
   \<and> map_option unit_amount (request (handleSubmit V3
      \<lparr>bookingDetails = \<lparr>apartmentId = Some ''gintaras'', checkIn = Some 1717545600000,
         checkOut = Some 1717718400000, guestName = Some ''Ona'',
         guestEmail = Some ''ona@example.org''\<rparr>,
       isLoading = False, error = None, bookedDates = []\<rparr>
      \<lparr>id_Apartment = ''gintaras'', name = ''Gintaras'', pricePerNight = Finite 100\<rparr>
      (\<lambda>params. Response True (Json (Some ''https://pay.example/s1''))))) = Some (Finite 20000)"
proof -
  have cents: "Math_round (number_mul (number_mul (number_of_int 2) (Finite 100)) (Finite 100))
      = Finite 20000"
    by code_simp
  show ?thesis
    by (simp add: fetchBookedDates_def initialState_def handleDateChange_def
        commitSelection_def isDateBooked_def rangeHasConflict_iff handleSubmit_def
        validateSubmission_def checkout_def differenceInDays_def msPerDay_def Let_def cents)
qed

section \<open>The order of the dates handed to the range check\<close>

text \<open>
  Claim C9, at the input where the code departs from it. With the check-in 2024-06-05
  chosen, picking the check-out 2024-06-03 runs the range check with the start after the
  end: under release 2 of date-fns the \<^verbatim>\<open>RangeError\<close> of \<^verbatim>\<open>eachDayOfInterval\<close> leaves the
  handler, under release 3 the selection is accepted, the check-out before the check-in.
  Picking the check-out 2024-06-05 runs the range check with the start equal to the end,
  and the selection is accepted under either release.
\<close>

theorem handleDateChange_checkOut_unguarded:
  "handleDateChange V2
      \<lparr>bookingDetails = \<lparr>apartmentId = Some ''gintaras'', checkIn = Some 1717545600000,
         checkOut = None, guestName = None, guestEmail = None\<rparr>,
       isLoading = False, error = None, bookedDates = []\<rparr>
      CheckOut (Some 1717372800000) = Inl RangeError
   \<and> handleDateChange V3
      \<lparr>bookingDetails = \<lparr>apartmentId = Some ''gintaras'', checkIn = Some 1717545600000,
         checkOut = None, guestName = None, guestEmail = None\<rparr>,
       isLoading = False, error = None, bookedDates = []\<rparr>
      CheckOut (Some 1717372800000)
    = Inr \<lparr>bookingDetails = \<lparr>apartmentId = Some ''gintaras'', checkIn = Some 1717545600000,
         checkOut = Some 1717372800000, guestName = None, guestEmail = None\<rparr>,
       isLoading = False, error = None, bookedDates = []\<rparr>
   \<and> handleDateChange V2
      \<lparr>bookingDetails = \<lparr>apartmentId = Some ''gintaras'', checkIn = Some 1717545600000,
         checkOut = None, guestName = None, guestEmail = None\<rparr>,
       isLoading = False, error = None, bookedDates = []\<rparr>
      CheckOut (Some 1717545600000)
    = Inr \<lparr>bookingDetails = \<lparr>apartmentId = Some ''gintaras'', checkIn = Some 1717545600000,
         checkOut = Some 1717545600000, guestName = None, guestEmail = None\<rparr>,
       isLoading = False, error = None, bookedDates = []\<rparr>
   \<and> handleDateChange V3
      \<lparr>bookingDetails = \<lparr>apartmentId = Some ''gintaras'', checkIn = Some 1717545600000,
         checkOut = None, guestName = None, guestEmail = None\<rparr>,
       isLoading = False, error = None, bookedDates = []\<rparr>
      CheckOut (Some 1717545600000)
    = Inr \<lparr>bookingDetails = \<lparr>apartmentId = Some ''gintaras'', checkIn = Some 1717545600000,
         checkOut = Some 1717545600000, guestName = None, guestEmail = None\<rparr>,
       isLoading = False, error = None, bookedDates = []\<rparr>"
  by (simp add: handleDateChange_def commitSelection_def isDateBooked_def rangeHasConflict_iff)

section \<open>Coupons\<close>

lemma selectCoupon_no_match:
  "filter (matchesCoupon c now) rows = [] \<Longrightarrow>
   selectCoupon (Rows rows) c now = \<lparr>data = None, qerror = Some ''PGRST116''\<rparr>"
  by (simp add: selectCoupon_def single_def)

lemma selectCoupon_answer:
  "qerror (selectCoupon coupons c now) \<noteq> None \<or> data (selectCoupon coupons c now) \<noteq> None"
  by (simp add: selectCoupon_def single_def split: Table.split list.split)

lemma validateCoupon_error:
  "error (fst (validateCoupon s coupons now c)) = None
   \<or> error (fst (validateCoupon s coupons now c)) = Some ''Failed to validate coupon''"
  using selectCoupon_answer [of coupons c now]
  by (auto simp: validateCoupon_def Let_def split: option.split)

text \<open>
  Claim C4, as the code has it. A coupon validation that fails, because no active and
  unexpired coupon matches the code or because the store cannot be reached, clears the
  applied coupon and sets an error message, in the form and in the calendar alike; only
  an empty code is turned down, with its own message, before any validation, and that
  leaves every other cell, the applied coupon among them, as it was.
\<close>

theorem validateCoupon_failure_clears_coupon:
  assumes "coupons = Unavailable e
     \<or> (\<exists>rows. coupons = Rows rows \<and> filter (matchesCoupon c now) rows = [])"
  shows "appliedCoupon (fst (validateCoupon s coupons now c)) = None
     \<and> error (fst (validateCoupon s coupons now c)) = Some ''Failed to validate coupon''
     \<and> (trim (couponCode s) = [] \<longrightarrow>
           handleApplyCoupon s coupons now = s\<lparr>error := Some ''Please enter a coupon code''\<rparr>)
     \<and> (trim (calendarCouponCode k) = c \<and> c \<noteq> [] \<longrightarrow>
           calendarAppliedCoupon (fst (validateCoupon_calendar t k coupons now)) = None
           \<and> couponError (fst (validateCoupon_calendar t k coupons now))
               = Some (t ''coupon.invalid''))"
proof -
  have "qerror (selectCoupon coupons c now) \<noteq> None"
    using assms by (auto simp: selectCoupon_def single_def)
  then obtain e' where "qerror (selectCoupon coupons c now) = Some e'" by auto
  then show ?thesis
    by (auto simp: validateCoupon_def validateCoupon_calendar_def handleApplyCoupon_def Let_def)
qed

text \<open>
  Instances, with \<^verbatim>\<open>SAVE10\<close> applied and \<^verbatim>\<open>EXPIRED99\<close> expired since 2024-01-01, on
  2024-06-01: validating \<^verbatim>\<open>EXPIRED99\<close> clears the coupon in the form and in the calendar,
  and applying a blank code only sets the message.
\<close>

theorem validateCoupon_failure_clears_coupon_witness:
  "appliedCoupon (fst (validateCoupon
      \<lparr>bookingDetails = \<lparr>apartmentId = Some ''gintaras'', checkIn = None, checkOut = None,
         guestName = None, guestEmail = None\<rparr>,
       isLoading = False, error = None, bookedDates = [],
       couponCode = ''EXPIRED99'',
       appliedCoupon = Some \<lparr>code = ''SAVE10'', discount_percent = Finite 10, is_active = True,
           expires_at = 1735689600000\<rparr>,
       isValidatingCoupon = False\<rparr>
      (Rows [\<lparr>code = ''SAVE10'', discount_percent = Finite 10, is_active = True,
           expires_at = 1735689600000\<rparr>,
         \<lparr>code = ''EXPIRED99'', discount_percent = Finite 99, is_active = True,
           expires_at = 1704067200000\<rparr>])
      1717200000000 ''EXPIRED99'')) = None
   \<and> handleApplyCoupon
      \<lparr>bookingDetails = \<lparr>apartmentId = Some ''gintaras'', checkIn = None, checkOut = None,
         guestName = None, guestEmail = None\<rparr>,
       isLoading = False, error = None, bookedDates = [],
       couponCode = ''  '',
       appliedCoupon = Some \<lparr>code = ''SAVE10'', discount_percent = Finite 10, is_active = True,
           expires_at = 1735689600000\<rparr>,
       isValidatingCoupon = False\<rparr>
      (Rows [\<lparr>code = ''SAVE10'', discount_percent = Finite 10, is_active = True,
           expires_at = 1735689600000\<rparr>,
         \<lparr>code = ''EXPIRED99'', discount_percent = Finite 99, is_active = True,
           expires_at = 1704067200000\<rparr>])
      1717200000000
     = \<lparr>bookingDetails = \<lparr>apartmentId = Some ''gintaras'', checkIn = None, checkOut = None,
         guestName = None, guestEmail = None\<rparr>,
       isLoading = False, error = Some ''Please enter a coupon code'', bookedDates = [],
       couponCode = ''  '',
       appliedCoupon = Some \<lparr>code = ''SAVE10'', discount_percent = Finite 10, is_active = True,
           expires_at = 1735689600000\<rparr>,
       isValidatingCoupon = False\<rparr>
   \<and> calendarAppliedCoupon (fst (validateCoupon_calendar (\<lambda>key. key)
      \<lparr>calendarCouponCode = '' EXPIRED99'', calendarIsValidatingCoupon = False,
         couponError = None,
         calendarAppliedCoupon = Some \<lparr>code = ''SAVE10'', discount_percent = Finite 10, is_active = True,
           expires_at = 1735689600000\<rparr>\<rparr>
      (Rows [\<lparr>code = ''SAVE10'', discount_percent = Finite 10, is_active = True,
           expires_at = 1735689600000\<rparr>,
         \<lparr>code = ''EXPIRED99'', discount_percent = Finite 99, is_active = True,
           expires_at = 1704067200000\<rparr>])
      1717200000000)) = None"
proof -
  let ?rows = "[\<lparr>code = ''SAVE10'', discount_percent = Finite 10, is_active = True,
           expires_at = 1735689600000\<rparr>,
         \<lparr>code = ''EXPIRED99'', discount_percent = Finite 99, is_active = True,
           expires_at = 1704067200000\<rparr>]"
  let ?s = "\<lparr>bookingDetails = \<lparr>apartmentId = Some ''gintaras'', checkIn = None, checkOut = None,
         guestName = None, guestEmail = None\<rparr>,
       isLoading = False, error = None, bookedDates = [],
       couponCode = ''EXPIRED99'',
       appliedCoupon = Some \<lparr>code = ''SAVE10'', discount_percent = Finite 10, is_active = True,
           expires_at = 1735689600000\<rparr>,
       isValidatingCoupon = False\<rparr>"
  let ?blank = "\<lparr>bookingDetails = \<lparr>apartmentId = Some ''gintaras'', checkIn = None, checkOut = None,
         guestName = None, guestEmail = None\<rparr>,
       isLoading = False, error = None, bookedDates = [],
       couponCode = ''  '',
       appliedCoupon = Some \<lparr>code = ''SAVE10'', discount_percent = Finite 10, is_active = True,
           expires_at = 1735689600000\<rparr>,
       isValidatingCoupon = False\<rparr>"
  let ?k = "\<lparr>calendarCouponCode = '' EXPIRED99'', calendarIsValidatingCoupon = False,
         couponError = None,
         calendarAppliedCoupon = Some \<lparr>code = ''SAVE10'', discount_percent = Finite 10, is_active = True,
           expires_at = 1735689600000\<rparr>\<rparr>"
  have none: "Rows ?rows = Unavailable ''FetchError''
     \<or> (\<exists>rows. Rows ?rows = Rows rows \<and> filter (matchesCoupon ''EXPIRED99'' 1717200000000) rows = [])"
    by (simp add: matchesCoupon_def)
  have blank: "trim (couponCode ?blank) = []"
    by (simp add: trim_def isWhiteSpace_def)
  have code: "trim (calendarCouponCode ?k) = ''EXPIRED99'' \<and> ''EXPIRED99'' \<noteq> []"
    by (simp add: trim_def isWhiteSpace_def)
  note t = validateCoupon_failure_clears_coupon [OF none]
  have a: "appliedCoupon (fst (validateCoupon ?s (Rows ?rows) 1717200000000 ''EXPIRED99'')) = None"
    using t [of ?s] by blast
  have b: "handleApplyCoupon ?blank (Rows ?rows) 1717200000000
      = ?blank\<lparr>error := Some ''Please enter a coupon code''\<rparr>"
    using t [of ?blank] blank by blast
  have c: "calendarAppliedCoupon (fst (validateCoupon_calendar (\<lambda>key. key) ?k (Rows ?rows)
      1717200000000)) = None"
    using t [of _ ?k] code by blast
  from a b c show ?thesis by simp
qed

text \<open>
  The claim as stated fails: with \<^verbatim>\<open>SAVE10\<close> applied, applying the expired code
  \<^verbatim>\<open>EXPIRED99\<close> leaves no coupon applied.
\<close>

theorem validateCoupon_keeps_coupon_counterexample:
  "appliedCoupon
      \<lparr>bookingDetails = \<lparr>apartmentId = Some ''gintaras'', checkIn = None, checkOut = None,
         guestName = None, guestEmail = None\<rparr>,
       isLoading = False, error = None, bookedDates = [],
       couponCode = ''EXPIRED99'',
       appliedCoupon = Some \<lparr>code = ''SAVE10'', discount_percent = Finite 10, is_active = True,
           expires_at = 1735689600000\<rparr>,
       isValidatingCoupon = False\<rparr>
     = Some \<lparr>code = ''SAVE10'', discount_percent = Finite 10, is_active = True,
           expires_at = 1735689600000\<rparr>
   \<and> appliedCoupon (handleApplyCoupon
      \<lparr>bookingDetails = \<lparr>apartmentId = Some ''gintaras'', checkIn = None, checkOut = None,
         guestName = None, guestEmail = None\<rparr>,
       isLoading = False, error = None, bookedDates = [],
       couponCode = ''EXPIRED99'',
       appliedCoupon = Some \<lparr>code = ''SAVE10'', discount_percent = Finite 10, is_active = True,
           expires_at = 1735689600000\<rparr>,
       isValidatingCoupon = False\<rparr>
      (Rows [\<lparr>code = ''SAVE10'', discount_percent = Finite 10, is_active = True,
           expires_at = 1735689600000\<rparr>,
         \<lparr>code = ''EXPIRED99'', discount_percent = Finite 99, is_active = True,
           expires_at = 1704067200000\<rparr>])
      1717200000000) = None"
  by (simp add: handleApplyCoupon_def validateCoupon_def selectCoupon_def single_def
      matchesCoupon_def trim_def isWhiteSpace_def)

text \<open>
  Claim C10. In the form with coupons, a code that is not empty and that no row of the
  coupon table matches makes \<^verbatim>\<open>validateCoupon\<close> take the \<^verbatim>\<open>catch\<close> path: the outcome is
  the one of a store that cannot be reached, with the message
  \<^verbatim>\<open>Failed to validate coupon\<close>. Whatever the state, the store, the time and the code,
  \<^verbatim>\<open>validateCoupon\<close> never leaves the message \<^verbatim>\<open>Invalid or expired coupon code\<close>.
\<close>

theorem validateCoupon_no_match_unreachable:
  assumes "trim (couponCode s) \<noteq> []"
    and "filter (matchesCoupon (trim (couponCode s)) now) rows = []"
  shows "handleApplyCoupon s (Rows rows) now
       = s\<lparr>error := Some ''Failed to validate coupon'', appliedCoupon := None,
            isValidatingCoupon := False\<rparr>
     \<and> handleApplyCoupon s (Rows rows) now = handleApplyCoupon s (Unavailable e) now
     \<and> (\<forall>s' coupons' now' c'.
          error (fst (validateCoupon s' coupons' now' c')) \<noteq> Some ''Invalid or expired coupon code'')"
proof -
  have "handleApplyCoupon s (Rows rows) now
       = s\<lparr>error := Some ''Failed to validate coupon'', appliedCoupon := None,
            isValidatingCoupon := False\<rparr>"
    using assms by (simp add: handleApplyCoupon_def validateCoupon_def selectCoupon_no_match)
  moreover have "handleApplyCoupon s (Unavailable e) now
       = s\<lparr>error := Some ''Failed to validate coupon'', appliedCoupon := None,
            isValidatingCoupon := False\<rparr>"
    using assms by (simp add: handleApplyCoupon_def validateCoupon_def selectCoupon_def)
  moreover have "error (fst (validateCoupon s' coupons' now' c')) \<noteq> Some ''Invalid or expired coupon code''"
    for s' coupons' now' c'
    using validateCoupon_error [of s' coupons' now' c'] by auto
  ultimately show ?thesis by simp
qed

text \<open>An instance: the code \<^verbatim>\<open>NOPE\<close>, typed between blanks, against a table without it.\<close>

theorem validateCoupon_no_match_unreachable_witness:
  "handleApplyCoupon
      \<lparr>bookingDetails = \<lparr>apartmentId = Some ''gintaras'', checkIn = None, checkOut = None,
         guestName = None, guestEmail = None\<rparr>,
       isLoading = False, error = None, bookedDates = [],
       couponCode = '' NOPE '',
       appliedCoupon = Some \<lparr>code = ''SAVE10'', discount_percent = Finite 10, is_active = True,
           expires_at = 1735689600000\<rparr>,
       isValidatingCoupon = False\<rparr>
      (Rows [\<lparr>code = ''SAVE10'', discount_percent = Finite 10, is_active = True,
           expires_at = 1735689600000\<rparr>])
      1717200000000
    = \<lparr>bookingDetails = \<lparr>apartmentId = Some ''gintaras'', checkIn = None, checkOut = None,
         guestName = None, guestEmail = None\<rparr>,
       isLoading = False, error = Some ''Failed to validate coupon'', bookedDates = [],
       couponCode = '' NOPE '',
       appliedCoupon = None,
       isValidatingCoupon = False\<rparr>"
proof -
  let ?s = "\<lparr>bookingDetails = \<lparr>apartmentId = Some ''gintaras'', checkIn = None, checkOut = None,
         guestName = None, guestEmail = None\<rparr>,
       isLoading = False, error = None, bookedDates = [],
       couponCode = '' NOPE '',
       appliedCoupon = Some \<lparr>code = ''SAVE10'', discount_percent = Finite 10, is_active = True,
           expires_at = 1735689600000\<rparr>,
       isValidatingCoupon = False\<rparr>"
  have code: "trim (couponCode ?s) = ''NOPE''"
    by (simp add: trim_def isWhiteSpace_def)
  then have nonempty: "trim (couponCode ?s) \<noteq> []" by simp
  have none: "filter (matchesCoupon (trim (couponCode ?s)) 1717200000000)
      [\<lparr>code = ''SAVE10'', discount_percent = Finite 10, is_active = True,
           expires_at = 1735689600000\<rparr>] = []"
    unfolding code by (simp add: matchesCoupon_def)
  from validateCoupon_no_match_unreachable [OF nonempty none] show ?thesis by simp
qed

text \<open>
  Claim C8, at the input where the code departs from it. Applying the expired code
  \<^verbatim>\<open>EXPIRED99\<close>, which no row matches, leaves the message of a failed lookup, the same
  as when the store cannot be reached, and not the message of an invalid or expired code.
\<close>

theorem handleApplyCoupon_expired_code:
  "error (handleApplyCoupon
      \<lparr>bookingDetails = \<lparr>apartmentId = Some ''gintaras'', checkIn = None, checkOut = None,
         guestName = None, guestEmail = None\<rparr>,
       isLoading = False, error = None, bookedDates = [],
       couponCode = ''EXPIRED99'',
       appliedCoupon = None,
       isValidatingCoupon = False\<rparr>
      (Rows [\<lparr>code = ''EXPIRED99'', discount_percent = Finite 99, is_active = True,
           expires_at = 1704067200000\<rparr>])
      1717200000000) = Some ''Failed to validate coupon''
   \<and> error (handleApplyCoupon
      \<lparr>bookingDetails = \<lparr>apartmentId = Some ''gintaras'', checkIn = None, checkOut = None,
         guestName = None, guestEmail = None\<rparr>,
       isLoading = False, error = None, bookedDates = [],
       couponCode = ''EXPIRED99'',
       appliedCoupon = None,
       isValidatingCoupon = False\<rparr>
      (Unavailable ''FetchError'')
      1717200000000) = Some ''Failed to validate coupon''"
  by (simp add: handleApplyCoupon_def validateCoupon_def selectCoupon_def single_def
      matchesCoupon_def trim_def isWhiteSpace_def)

section \<open>The price\<close>

text \<open>
  What the arithmetic of numbers means: \<open>ilog2\<close> is the binary exponent, the test for an
  infinity is the test against \<open>2 powi 1024\<close>, and a finite result is within half a unit
  in the last place of the exact one.
\<close>

lemma ilog2_bounds:
  assumes "x \<noteq> 0"
  shows "2 powi ilog2 x \<le> \<bar>x\<bar> \<and> \<bar>x\<bar> < 2 powi (ilog2 x + 1)"
proof (cases "1 \<le> \<bar>x\<bar>")
  case True
  define m where "m = \<lfloor>\<bar>x\<bar>\<rfloor>"
  have m: "0 < m" using True by (simp add: m_def)
  have e: "ilog2 x = bitlen m - 1" using True by (simp add: ilog2_def m_def)
  have k: "1 \<le> bitlen m" using m bitlen_eq_zero_iff [of m] bitlen_nonneg [of m] by linarith
  from bitlen_bounds [OF m] have lo: "2 ^ nat (bitlen m - 1) \<le> m" and hi: "m < 2 ^ nat (bitlen m)"
    by simp_all
  have "(2::rat) powi (bitlen m - 1) = of_int (2 ^ nat (bitlen m - 1))"
    using k by (simp add: power_int_def)
  also have "\<dots> \<le> of_int m" using lo by (simp only: of_int_le_iff)
  also have "\<dots> \<le> \<bar>x\<bar>" by (simp add: m_def)
  finally have a: "2 powi ilog2 x \<le> \<bar>x\<bar>" by (simp add: e)
  have "\<bar>x\<bar> < of_int (m + 1)" by (simp add: m_def) linarith
  also have "\<dots> \<le> of_int (2 ^ nat (bitlen m))" using hi by (simp only: of_int_le_iff)
  also have "\<dots> = (2::rat) powi (bitlen m)" using k by (simp add: power_int_def)
  finally have b: "\<bar>x\<bar> < 2 powi (ilog2 x + 1)" by (simp add: e)
  from a b show ?thesis ..
next
  case False
  define y where "y = 1 / \<bar>x\<bar>"
  define c where "c = \<lceil>y\<rceil>"
  have xpos: "0 < \<bar>x\<bar>" using assms by simp
  have y1: "1 < y" using False xpos by (simp add: y_def)
  have c2: "0 < c - 1" using y1 by (simp add: c_def)
  have e: "ilog2 x = - bitlen (c - 1)" using False by (simp add: ilog2_def y_def c_def)
  define k where "k = bitlen (c - 1)"
  have k: "1 \<le> k" using c2 bitlen_eq_zero_iff [of "c - 1"] bitlen_nonneg [of "c - 1"]
    unfolding k_def by linarith
  from bitlen_bounds [OF c2] have lo: "2 ^ nat (k - 1) \<le> c - 1" and hi: "c - 1 < 2 ^ nat k"
    by (simp_all add: k_def)
  have "y \<le> of_int c" by (simp add: c_def)
  also have "\<dots> \<le> of_int (2 ^ nat k)" using hi by (simp only: of_int_le_iff)
  finally have yhi: "y \<le> 2 ^ nat k" by simp
  have "of_int (2 ^ nat (k - 1)) \<le> (of_int (c - 1) :: rat)" using lo by (simp only: of_int_le_iff)
  also have "\<dots> < y" by (simp add: c_def) linarith
  finally have ylo: "2 ^ nat (k - 1) < y" by simp
  have inv: "\<bar>x\<bar> = 1 / y" using xpos by (simp add: y_def)
  have "(2::rat) powi (- k) = 1 / 2 ^ nat k" using k by (simp add: power_int_def field_simps)
  also have "\<dots> \<le> 1 / y" using yhi y1 by (simp add: frac_le)
  finally have a: "2 powi ilog2 x \<le> \<bar>x\<bar>" by (simp add: e k_def inv)
  have "1 / y < 1 / 2 ^ nat (k - 1)" using ylo by (simp add: frac_less2)
  also have "\<dots> = (2::rat) powi (- k + 1)"
  proof (cases "k = 1")
    case True
    then show ?thesis by simp
  next
    case False
    with k have "- k + 1 < 0" by simp
    moreover have "nat (- (- k + 1)) = nat (k - 1)" by simp
    ultimately show ?thesis by (simp add: power_int_def field_simps)
  qed
  finally have b: "\<bar>x\<bar> < 2 powi (ilog2 x + 1)" by (simp add: e k_def inv)
  from a b show ?thesis ..
qed


lemma ilog2_overflow:
  assumes "y \<noteq> 0"
  shows "1024 \<le> ilog2 y \<longleftrightarrow> 2 powi 1024 \<le> \<bar>y\<bar>"
proof
  assume "1024 \<le> ilog2 y"
  then have "(2::rat) powi 1024 \<le> 2 powi ilog2 y"
    by (intro power_int_increasing) simp_all
  with ilog2_bounds [OF assms] show "2 powi 1024 \<le> \<bar>y\<bar>" by linarith
next
  assume *: "2 powi 1024 \<le> \<bar>y\<bar>"
  show "1024 \<le> ilog2 y"
  proof (rule ccontr)
    assume "\<not> 1024 \<le> ilog2 y"
    then have "ilog2 y + 1 \<le> 1024" by simp
    then have "(2::rat) powi (ilog2 y + 1) \<le> 2 powi 1024"
      by (intro power_int_increasing) simp_all
    with ilog2_bounds [OF assms] * show False by linarith
  qed
qed

lemma roundTiesToEven_near: "\<bar>of_int (roundTiesToEven x) - x\<bar> \<le> 1 / 2"
proof -
  have "of_int \<lfloor>x\<rfloor> \<le> x" "x < of_int \<lfloor>x\<rfloor> + 1"
    by linarith+
  then show ?thesis
    by (auto simp: roundTiesToEven_def Let_def)
qed

lemma binary64_near:
  assumes "binary64 x = Finite y"
  shows "\<bar>y - x\<bar> \<le> 2 powi (max (ilog2 x) (- 1022) - 53)"
proof (cases "x = 0")
  case True
  with assms show ?thesis by (simp add: binary64_def)
next
  case False
  define ulp :: rat where "ulp = 2 powi (max (ilog2 x) (- 1022) - 52)"
  have pos: "0 < ulp" by (simp add: ulp_def)
  have half: "2 powi (max (ilog2 x) (- 1022) - 53) = ulp / 2"
    by (simp add: ulp_def power_int_diff)
  from assms False have y: "y = of_int (roundTiesToEven (x / ulp)) * ulp"
    by (simp add: binary64_def Let_def ulp_def split: if_splits)
  have "y - x = (of_int (roundTiesToEven (x / ulp)) - x / ulp) * ulp"
    using pos by (simp add: y left_diff_distrib)
  then have "\<bar>y - x\<bar> = \<bar>of_int (roundTiesToEven (x / ulp)) - x / ulp\<bar> * ulp"
    using pos by (simp add: abs_mult)
  also have "\<dots> \<le> 1 / 2 * ulp"
    using roundTiesToEven_near [of "x / ulp"] pos by (intro mult_right_mono) simp_all
  finally show ?thesis by (simp add: half)
qed

text \<open>
  Claim C7, as the code has it. For every number of nights, nightly rate and optional
  coupon, the total is the number of nights times the rate, less that product times the
  discount percentage over 100 when a coupon is applied, each multiplication, division and
  subtraction being the binary64 one. The amount that \<^verbatim>\<open>handleSubmit\<close> hands to the
  checkout is this total, for the nights between check-in and check-out, times 100 in
  binary64 and then rounded to the nearest integer, a half going up. A rate of 100, 3 nights
  and a discount of 10 percent give the total 270 and the amount 27000.
\<close>

theorem calculateTotalPrice_binary64:
  "calculateTotalPrice rate applied n =
      (case applied of
         None \<Rightarrow> number_mul (number_of_int n) rate
       | Some coupon \<Rightarrow>
           number_sub (number_mul (number_of_int n) rate)
             (number_mul (number_mul (number_of_int n) rate)
                (number_div100 (discount_percent coupon))))
   \<and> (\<forall>p. request (handleSubmit_coupon lib s apartment stripe) = Some p \<longrightarrow>
        (\<exists>ci co. checkIn (bookingDetails s) = Some ci \<and> checkOut (bookingDetails s) = Some co
           \<and> metadata_price p = calculateTotalPrice (price_per_night apartment)
                 (appliedCoupon s) (differenceInDays co ci))
        \<and> unit_amount p = Math_round (number_mul (metadata_price p) (Finite 100)))
   \<and> calculateTotalPrice (Finite 100)
        (Some \<lparr>code = ''SAVE10'', discount_percent = Finite 10, is_active = True,
           expires_at = 1735689600000\<rparr>) 3 = Finite 270
   \<and> Math_round (number_mul (Finite 270) (Finite 100)) = Finite 27000"
proof -
  have total: "calculateTotalPrice rate applied n =
      (case applied of
         None \<Rightarrow> number_mul (number_of_int n) rate
       | Some coupon \<Rightarrow>
           number_sub (number_mul (number_of_int n) rate)
             (number_mul (number_mul (number_of_int n) rate)
                (number_div100 (discount_percent coupon))))"
    by (simp add: calculateTotalPrice_def Let_def split: option.split)
  have sent: "(\<exists>ci co. checkIn (bookingDetails s) = Some ci \<and> checkOut (bookingDetails s) = Some co
           \<and> metadata_price p = calculateTotalPrice (price_per_night apartment)
                 (appliedCoupon s) (differenceInDays co ci))
        \<and> unit_amount p = Math_round (number_mul (metadata_price p) (Finite 100))"
    if "request (handleSubmit_coupon lib s apartment stripe) = Some p" for p
  proof (cases "validateSubmission lib (bookingDetails s) (bookedDates s)")
    case (Inl msg)
    with that show ?thesis by (simp add: handleSubmit_coupon_def)
  next
    case (Inr v)
    then obtain ci co email gname where
      v: "validateSubmission lib (bookingDetails s) (bookedDates s) = Inr (ci, co, email, gname)"
      by (cases v) auto
    then have "checkIn (bookingDetails s) = Some ci" "checkOut (bookingDetails s) = Some co"
      by (simp_all add: validateSubmission_Inr_iff)
    with that v show ?thesis
      by (auto simp: handleSubmit_coupon_def request_checkout Let_def)
  qed
  have scenario: "calculateTotalPrice (Finite 100)
        (Some \<lparr>code = ''SAVE10'', discount_percent = Finite 10, is_active = True,
           expires_at = 1735689600000\<rparr>) 3 = Finite 270"
    by code_simp
  have cents: "Math_round (number_mul (Finite 270) (Finite 100)) = Finite 27000"
    by code_simp
  show ?thesis using total sent scenario cents by metis
qed

text \<open>
  An instance: three nights from 2024-06-05 at 100 a night with \<^verbatim>\<open>SAVE10\<close> applied are
  sent to the checkout as 27000 cents.
\<close>

theorem calculateTotalPrice_binary64_witness:
  "\<exists>p. request (handleSubmit_coupon V3
      \<lparr>bookingDetails = \<lparr>apartmentId = Some ''gintaras'', checkIn = Some 1717545600000,
         checkOut = Some 1717804800000, guestName = Some ''Ona'',
         guestEmail = Some ''ona@example.org''\<rparr>,
       isLoading = False, error = None, bookedDates = [],
       couponCode = ''SAVE10'',
       appliedCoupon = Some \<lparr>code = ''SAVE10'', discount_percent = Finite 10, is_active = True,
           expires_at = 1735689600000\<rparr>,
       isValidatingCoupon = False\<rparr>
      \<lparr>id_ApartmentRow = ''gintaras'', name_ApartmentRow = ''Gintaras'',
         price_per_night = Finite 100\<rparr>
      (\<lambda>params. Response True (Json (Some ''https://pay.example/s1'')))) = Some p
     \<and> metadata_price p = Finite 270 \<and> unit_amount p = Finite 27000"
proof -
  let ?s = "\<lparr>bookingDetails = \<lparr>apartmentId = Some ''gintaras'', checkIn = Some 1717545600000,
         checkOut = Some 1717804800000, guestName = Some ''Ona'',
         guestEmail = Some ''ona@example.org''\<rparr>,
       isLoading = False, error = None, bookedDates = [],
       couponCode = ''SAVE10'',
       appliedCoupon = Some \<lparr>code = ''SAVE10'', discount_percent = Finite 10, is_active = True,
           expires_at = 1735689600000\<rparr>,
       isValidatingCoupon = False\<rparr>"
  let ?apt = "\<lparr>id_ApartmentRow = ''gintaras'', name_ApartmentRow = ''Gintaras'',
         price_per_night = Finite 100\<rparr>"
  let ?stripe = "\<lambda>params :: CheckoutParams. Response True (Json (Some ''https://pay.example/s1''))"
  obtain p where p: "request (handleSubmit_coupon V3 ?s ?apt ?stripe) = Some p"
    by (simp add: handleSubmit_coupon_def validateSubmission_def rangeHasConflict_iff
        request_checkout Let_def)
  note t = calculateTotalPrice_binary64
    [where rate = "Finite 100" and applied = "appliedCoupon ?s" and n = 3 and lib = V3
       and s = ?s and apartment = ?apt and stripe = ?stripe]
  note sent = t [THEN conjunct2, THEN conjunct1, rule_format, OF p]
  note scenario = t [THEN conjunct2, THEN conjunct2, THEN conjunct1]
  note amount = t [THEN conjunct2, THEN conjunct2, THEN conjunct2]
  have nights: "differenceInDays 1717804800000 1717545600000 = 3"
    by (simp add: differenceInDays_def msPerDay_def)
  from sent have "metadata_price p = calculateTotalPrice (Finite 100) (appliedCoupon ?s)
          (differenceInDays 1717804800000 1717545600000)"
    by simp
  then have price: "metadata_price p = Finite 270"
    unfolding nights using scenario by simp
  from sent have "unit_amount p = Math_round (number_mul (metadata_price p) (Finite 100))"
    by simp
  then have "unit_amount p = Finite 27000"
    unfolding price amount .
  with p price show ?thesis by blast
qed

text \<open>
  With exact arithmetic in place of binary64 the claim fails. Three nights at 49.5 with 5
  percent off are 141.075 exactly, 14107.5 cents, so 14108 with the half rounded up; the
  code computes the binary64 neighbour of 141.075, whose hundredfold is the binary64 value
  just below 14107.5, and sends 14107.
\<close>

theorem calculateTotalPrice_exact_counterexample:
  "calculateTotalPrice (Finite (99 / 2))
      (Some \<lparr>code = ''FIVE'', discount_percent = Finite 5, is_active = True,
           expires_at = 1735689600000\<rparr>) 3
     = Finite (2481817646215987 / 17592186044416)
   \<and> (2481817646215987 / 17592186044416 :: rat) \<noteq> 3 * (99 / 2) - 3 * (99 / 2) * 5 / 100
   \<and> map_option unit_amount (request (handleSubmit_coupon V3
      \<lparr>bookingDetails = \<lparr>apartmentId = Some ''gintaras'', checkIn = Some 1717545600000,
         checkOut = Some 1717804800000, guestName = Some ''Ona'',
         guestEmail = Some ''ona@example.org''\<rparr>,
       isLoading = False, error = None, bookedDates = [],
       couponCode = ''FIVE'',
       appliedCoupon = Some \<lparr>code = ''FIVE'', discount_percent = Finite 5, is_active = True,
           expires_at = 1735689600000\<rparr>,
       isValidatingCoupon = False\<rparr>
      \<lparr>id_ApartmentRow = ''gintaras'', name_ApartmentRow = ''Gintaras'',
         price_per_night = Finite (99 / 2)\<rparr>
      (\<lambda>params. Response True (Json (Some ''https://pay.example/s1''))))) = Some (Finite 14107)
   \<and> \<lfloor>(3 * (99 / 2) - 3 * (99 / 2) * 5 / 100) * 100 + 1 / 2 :: rat\<rfloor> = 14108"
proof -
  have total: "calculateTotalPrice (Finite (99 / 2))
      (Some \<lparr>code = ''FIVE'', discount_percent = Finite 5, is_active = True,
           expires_at = 1735689600000\<rparr>) 3
     = Finite (2481817646215987 / 17592186044416)"
    by code_simp
  have differs: "(2481817646215987 / 17592186044416 :: rat) \<noteq> 3 * (99 / 2) - 3 * (99 / 2) * 5 / 100"
    by simp
  have cents: "Math_round (number_mul (Finite (2481817646215987 / 17592186044416)) (Finite 100))
      = Finite 14107"
    by code_simp
  have nights: "differenceInDays 1717804800000 1717545600000 = 3"
    by (simp add: differenceInDays_def msPerDay_def)
  have sent: "map_option unit_amount (request (handleSubmit_coupon V3
      \<lparr>bookingDetails = \<lparr>apartmentId = Some ''gintaras'', checkIn = Some 1717545600000,
         checkOut = Some 1717804800000, guestName = Some ''Ona'',
         guestEmail = Some ''ona@example.org''\<rparr>,
       isLoading = False, error = None, bookedDates = [],
       couponCode = ''FIVE'',
       appliedCoupon = Some \<lparr>code = ''FIVE'', discount_percent = Finite 5, is_active = True,
           expires_at = 1735689600000\<rparr>,
       isValidatingCoupon = False\<rparr>
      \<lparr>id_ApartmentRow = ''gintaras'', name_ApartmentRow = ''Gintaras'',
         price_per_night = Finite (99 / 2)\<rparr>
      (\<lambda>params. Response True (Json (Some ''https://pay.example/s1''))))) = Some (Finite 14107)"
    by (simp del: number_mul.simps
        add: handleSubmit_coupon_def validateSubmission_def rangeHasConflict_iff
          request_checkout Let_def nights total cents)
  have exact: "\<lfloor>(3 * (99 / 2) - 3 * (99 / 2) * 5 / 100) * 100 + 1 / 2 :: rat\<rfloor> = 14108"
    by code_simp
  from total differs sent exact show ?thesis by blast
qed

end
